theory Spec2Isabelle
  imports Complex_Main "HOL-Library.Char_ord" "HOL-Library.List_Lexorder"
begin

section \<open>JavaScript values\<close>

text \<open>
  Hours and the hour increment are JavaScript numbers. They are only stored, copied and
  compared by the functions modelled here, so they are reals; NaN, infinities and rounding
  are outside the model.
\<close>

type_synonym number = real

text \<open>
  A work item id is declared \<open>number\<close>, but a stored document may carry it as a string
  (\<open>Number(doc.workItemId)\<close> exists for that reason). Work item ids are integers;
  \<open>IdNaN\<close> is the number NaN, which \<open>Number\<close> returns for a string that is not numeric.
\<close>

datatype idval = IdNum int | IdStr string | IdNaN

text \<open>
  \<open>Number(s)\<close> on a string is a built-in of the language. It is a parameter of the model:
  \<open>None\<close> stands for NaN.
\<close>

type_synonym strToNumber = "string \<Rightarrow> int option"

definition Number_id :: "strToNumber \<Rightarrow> idval \<Rightarrow> idval" where
  "Number_id N v =
     (case v of
        IdNum n \<Rightarrow> IdNum n
      | IdStr s \<Rightarrow> (case N s of Some n \<Rightarrow> IdNum n | None \<Rightarrow> IdNaN)
      | IdNaN \<Rightarrow> IdNaN)"

definition is_number :: "idval \<Rightarrow> bool" where
  "is_number v = (case v of IdStr s \<Rightarrow> False | _ \<Rightarrow> True)"

definition digit_char :: "nat \<Rightarrow> char" where
  "digit_char n = ''0123456789'' ! n"

function showNat :: "nat \<Rightarrow> string" where
  "showNat n = (if n < 10 then [digit_char n] else showNat (n div 10) @ [digit_char (n mod 10)])"
  by pat_completeness auto
termination
  by (relation "measure (\<lambda>n. n)") auto

declare showNat.simps [simp del]

definition showInt :: "int \<Rightarrow> string" where
  "showInt i = (if i < 0 then CHR ''-'' # showNat (nat (- i)) else showNat (nat i))"

text \<open>\<open>String(v)\<close>, \<open>v.toString()\<close> and \<open>`${v}`\<close> on a work item id.\<close>

definition toString :: "idval \<Rightarrow> string" where
  "toString v = (case v of IdNum n \<Rightarrow> showInt n | IdStr s \<Rightarrow> s | IdNaN \<Rightarrow> ''NaN'')"

text \<open>
  \<open>a || b\<close> where \<open>a\<close> is an optional string: \<open>undefined\<close>, \<open>null\<close> and the empty string
  are falsy.
\<close>

definition truthy :: "string option \<Rightarrow> bool" where
  "truthy a = (case a of None \<Rightarrow> False | Some s \<Rightarrow> s \<noteq> [])"

definition or_str :: "string option \<Rightarrow> string \<Rightarrow> string" where
  "or_str a b = (case a of None \<Rightarrow> b | Some s \<Rightarrow> if s = [] then b else s)"

text \<open>\<open>Array.prototype.findIndex\<close>; \<open>None\<close> is the result -1.\<close>

fun findIndex :: "('a \<Rightarrow> bool) \<Rightarrow> 'a list \<Rightarrow> nat option" where
  "findIndex P [] = None"
| "findIndex P (x # xs) = (if P x then Some 0 else map_option Suc (findIndex P xs))"

section \<open>Data model (models.ts)\<close>

record TimeLog =
  date :: string
  hours :: number

datatype Action = Created | Updated

record AuditLogEntry =
  timestamp :: string
  auditUserId :: string
  auditUserName :: string
  action :: Action
  previousHours :: number
  newHours :: number
  auditNotes :: "string option"

text \<open>
  The fields that the \<open>entry\<close> argument of \<open>setTimeEntry\<close>, a stored \<open>TimeEntry\<close> and a
  \<open>FlatLog\<close> of the report have in common. Optional fields are options.
\<close>

record Meta =
  workItemId :: idval
  workItemTitle :: "string option"
  workItemType :: "string option"
  projectId :: string
  projectName :: "string option"
  description :: string
  userId :: string
  userName :: "string option"

text \<open>
  The argument \<open>entry\<close> of \<open>setTimeEntry\<close>: \<open>Omit<TimeEntry, ...> & {hours, date}\<close>.
  Its own \<open>logs\<close> field is overwritten by the spread at line 124 and is left out.
\<close>

record EntryInput = Meta +
  entry_hours :: number
  entry_date :: string

text \<open>
  A document of the collection \<open>TimeEntries\<close>, as \<open>getDocument\<close> returns it (typed
  \<open>any\<close>). Besides the fields of the interface \<open>TimeEntry\<close> it has \<open>__etag\<close> (\<open>etag\<close>), and
  the top-level \<open>hours\<close> and \<open>date\<close> (\<open>top_hours\<close>, \<open>top_date\<close>): a legacy document has the
  scalar \<open>hours\<close> and no \<open>logs\<close>, and \<open>setTimeEntry\<close> spreads \<open>entry\<close>, with its \<open>hours\<close> and
  \<open>date\<close>, into what it writes. \<open>None\<close> is an absent field. An absent \<open>auditLog\<close> is the
  empty list: the code reads it only as \<open>auditLog || []\<close>.
\<close>

record TimeEntry = Meta +
  entryId :: string
  logs :: "TimeLog list option"
  createdAt :: "string option"
  updatedAt :: "string option"
  auditLog :: "AuditLogEntry list"
  etag :: "nat option"
  top_hours :: "number option"
  top_date :: "string option"

section \<open>The document store and the outcome of its calls\<close>

text \<open>A rejected promise carries an error value.\<close>

datatype error = Error string

text \<open>
  What the outside world does during one call of the service: whether obtaining the data
  manager (\<open>getDataManager\<close>: \<open>SDK.getAccessToken\<close>, \<open>SDK.getService\<close>,
  \<open>getExtensionDataManager\<close>) rejects, whether the read (\<open>getDocument\<close>, \<open>getDocuments\<close>)
  and the write (\<open>setDocument\<close>) reject, and what the clock shows: \<open>now\<close> at line 88 of
  \<open>setTimeEntry\<close>, \<open>read_now\<close> where the legacy shim reads it (lines 158 and 206). The data
  manager is cached after the first success, so one outcome per call is enough.
\<close>

record world =
  dataManager_error :: "error option"
  getDocument_error :: "error option"
  setDocument_error :: "error option"
  now :: string
  read_now :: string

text \<open>The collection \<open>TimeEntries\<close>: documents by id.\<close>

type_synonym store = "string \<rightharpoonup> TimeEntry"

text \<open>
  Modelled from the spec: the Document Store Adapter is an external service, and its
  \<open>setDocument\<close> is an upsert after which the store holds the document under a token of its
  own. Here the token is a counter. Whether a write is rejected (a stale token, the
  network) is given by \<open>setDocument_error\<close>, not computed.
\<close>

definition store_setDocument :: "store \<Rightarrow> TimeEntry \<Rightarrow> store" where
  "store_setDocument st doc =
     st(entryId doc \<mapsto>
        doc\<lparr>etag := Some (case st (entryId doc) of
                             None \<Rightarrow> 1
                           | Some old \<Rightarrow> (case etag old of None \<Rightarrow> 1 | Some n \<Rightarrow> n + 1))\<rparr>)"

section \<open>timeEntryService.ts\<close>

text \<open>\<open>generateId\<close>, line 45.\<close>

definition generateId :: "idval \<Rightarrow> string \<Rightarrow> string" where
  "generateId wid uid = ''time-entry-'' @ toString wid @ ''-'' @ uid"

text \<open>
  The backwards-compatibility block of \<open>getTimeEntry\<close> (lines 157 to 160) and of
  \<open>getAllTimeEntries\<close> (lines 205 to 208), the same text in both: a document without
  \<open>logs\<close> but with the legacy \<open>hours\<close> gets one synthesized log.
  \<open>Number(doc.hours) || 0\<close> turns a falsy number into 0.
\<close>

definition legacyShim :: "string \<Rightarrow> TimeEntry \<Rightarrow> TimeEntry" where
  "legacyShim clock doc =
     (case logs doc of
        Some ls \<Rightarrow> doc
      | None \<Rightarrow>
         (case top_hours doc of
            None \<Rightarrow> doc
          | Some h \<Rightarrow>
             doc\<lparr>logs := Some [\<lparr>date = take 10 (or_str (updatedAt doc) (or_str (createdAt doc) clock)),
                                 hours = (if h = 0 then 0 else h)\<rparr>]\<rparr>))"

text \<open>Lines 162 to 164 and 210 to 212: \<open>doc.workItemId = Number(doc.workItemId)\<close>.\<close>

definition normalizeWorkItemId :: "strToNumber \<Rightarrow> TimeEntry \<Rightarrow> TimeEntry" where
  "normalizeWorkItemId N doc = doc\<lparr>workItemId := Number_id N (workItemId doc)\<rparr>"

text \<open>
  \<open>getTimeEntry\<close>, lines 151 to 169. The data manager is obtained outside the \<open>try\<close>; every
  failure inside it, a missing document included, gives \<open>null\<close>.
\<close>

definition getTimeEntry :: "strToNumber \<Rightarrow> world \<Rightarrow> store \<Rightarrow> string \<Rightarrow> error + TimeEntry option" where
  "getTimeEntry N w st ident =
     (case dataManager_error w of
        Some e \<Rightarrow> Inl e
      | None \<Rightarrow>
         (case getDocument_error w of
            Some e \<Rightarrow> Inr None
          | None \<Rightarrow>
             (case st ident of
                None \<Rightarrow> Inr None
              | Some doc \<Rightarrow> Inr (Some (normalizeWorkItemId N (legacyShim (read_now w) doc))))))"

text \<open>
  Lines 93 to 134 of \<open>setTimeEntry\<close>: the document built from the existing entry, the
  argument and the comment. \<open>logs[logIdx].hours = entry.hours\<close> is the list update.
\<close>

definition timeEntryOf :: "string \<Rightarrow> TimeEntry option \<Rightarrow> EntryInput \<Rightarrow> string option \<Rightarrow> TimeEntry" where
  "timeEntryOf clock existingEntry entry comment =
     (let logs0 = (case existingEntry of
                     None \<Rightarrow> []
                   | Some ex \<Rightarrow> (case logs ex of None \<Rightarrow> [] | Some ls \<Rightarrow> ls));
          logIdx = findIndex (\<lambda>l. date l = entry_date entry) logs0;
          prev = (case logIdx of Some i \<Rightarrow> hours (logs0 ! i) | None \<Rightarrow> 0);
          logs1 = (case logIdx of
                     Some i \<Rightarrow> logs0[i := (logs0 ! i)\<lparr>hours := entry_hours entry\<rparr>]
                   | None \<Rightarrow> logs0 @ [\<lparr>date = entry_date entry, hours = entry_hours entry\<rparr>]);
          auditEntry = \<lparr>timestamp = clock,
                        auditUserId = userId entry,
                        auditUserName = or_str (userName entry) (userId entry),
                        action = (case existingEntry of Some ex \<Rightarrow> Updated | None \<Rightarrow> Created),
                        previousHours = prev,
                        newHours = (case logIdx of Some i \<Rightarrow> hours (logs1 ! i) | None \<Rightarrow> entry_hours entry),
                        auditNotes = (if truthy comment then comment else None)\<rparr>;
          audit1 = (case existingEntry of None \<Rightarrow> [] | Some ex \<Rightarrow> auditLog ex) @ [auditEntry];
          existingEtag = (case existingEntry of None \<Rightarrow> None | Some ex \<Rightarrow> etag ex)
      in \<lparr>workItemId = workItemId entry,
          workItemTitle = workItemTitle entry,
          workItemType = workItemType entry,
          projectId = projectId entry,
          projectName = projectName entry,
          description = description entry,
          userId = userId entry,
          userName = userName entry,
          entryId = generateId (workItemId entry) (userId entry),
          logs = Some logs1,
          createdAt = Some (or_str (case existingEntry of None \<Rightarrow> None | Some ex \<Rightarrow> createdAt ex) clock),
          updatedAt = Some clock,
          auditLog = audit1,
          etag = existingEtag,
          top_hours = Some (entry_hours entry),
          top_date = Some (entry_date entry)\<rparr>)"

text \<open>
  \<open>setTimeEntry\<close>, lines 85 to 138: the settled promise and the store afterwards.
\<close>

definition setTimeEntry ::
  "strToNumber \<Rightarrow> world \<Rightarrow> store \<Rightarrow> EntryInput \<Rightarrow> string option \<Rightarrow> (error + TimeEntry) \<times> store" where
  "setTimeEntry N w st entry comment =
     (case dataManager_error w of
        Some e \<Rightarrow> (Inl e, st)
      | None \<Rightarrow>
         (case getTimeEntry N w st (generateId (workItemId entry) (userId entry)) of
            Inl e \<Rightarrow> (Inl e, st)
          | Inr existingEntry \<Rightarrow>
             (let timeEntry = timeEntryOf (now w) existingEntry entry comment
              in case setDocument_error w of
                   Some e \<Rightarrow> (Inl e, st)
                 | None \<Rightarrow> (Inr timeEntry, store_setDocument st timeEntry))))"

text \<open>
  \<open>getAllTimeEntries\<close>, lines 198 to 218. The argument \<open>documents\<close> is what \<open>getDocuments\<close>
  resolves to when it does not reject. The shim reads the clock for each document that
  needs it; one reading, \<open>read_now\<close>, stands for them.
\<close>

definition getAllTimeEntries :: "strToNumber \<Rightarrow> world \<Rightarrow> TimeEntry list \<Rightarrow> error + TimeEntry list" where
  "getAllTimeEntries N w documents =
     (case dataManager_error w of
        Some e \<Rightarrow> Inl e
      | None \<Rightarrow>
         (case getDocument_error w of
            Some e \<Rightarrow> Inr []
          | None \<Rightarrow>
             (if documents = [] then Inr []
              else Inr (map (\<lambda>doc. normalizeWorkItemId N (legacyShim (read_now w) doc)) documents))))"

text \<open>
  \<open>getSettings\<close>, lines 52 to 60. A settings document is an object: its keys with their
  values. \<open>{...a, ...b}\<close> is \<open>a ++ b\<close>. The module creates the object \<open>DEFAULT_SETTINGS\<close>
  once (lines 12 to 14), with the content \<open>{hourIncrement: 0.5}\<close>. Line 58 returns that
  object itself, line 56 returns a new object, and a caller may assign to a field of what
  it got. So the content of the module's object is state, \<open>defaults\<close>, which starts as the
  constant \<open>DEFAULT_SETTINGS\<close> below, and the result of \<open>getSettings\<close> is a reference: the
  module's object or a new object with its content. The argument \<open>stored\<close> is the document
  \<open>global-settings\<close> of the collection \<open>TimeTrackerSettings\<close> that \<open>getDocument\<close> resolves
  to when it does not reject; an \<open>undefined\<close> spreads to nothing. A store that rejects the
  read of a missing document is a world with \<open>getDocument_error\<close>.
\<close>

datatype jsval = JNum number | JStr string

type_synonym settings = "string \<rightharpoonup> jsval"

definition DEFAULT_SETTINGS :: settings where
  "DEFAULT_SETTINGS = [''hourIncrement'' \<mapsto> JNum 0.5]"

datatype settingsRef = DefaultsObject | NewObject settings

definition getSettings :: "world \<Rightarrow> settings option \<Rightarrow> settings \<Rightarrow> error + settingsRef" where
  "getSettings w stored defaults =
     (case dataManager_error w of
        Some e \<Rightarrow> Inl e
      | None \<Rightarrow>
         (case getDocument_error w of
            Some e \<Rightarrow> Inr DefaultsObject
          | None \<Rightarrow>
             Inr (NewObject (defaults ++ (case stored of None \<Rightarrow> Map.empty | Some settings \<Rightarrow> settings)))))"

text \<open>The content of the object a reference points to.\<close>

definition contentOf :: "settings \<Rightarrow> settingsRef \<Rightarrow> settings" where
  "contentOf defaults r = (case r of DefaultsObject \<Rightarrow> defaults | NewObject s \<Rightarrow> s)"

text \<open>
  Line 274 of time-entry.ts, in \<open>updateIncrement\<close>: \<open>settings.hourIncrement = newIncrement\<close>,
  where the variable \<open>settings\<close> holds what \<open>getSettings\<close> returned (line 82). The pair is the
  content of the module's object and the reference in the variable; the assignment changes
  the object the reference points to.
\<close>

definition assignHourIncrement :: "number \<Rightarrow> settings \<times> settingsRef \<Rightarrow> settings \<times> settingsRef" where
  "assignHourIncrement newIncrement p =
     (case p of
        (defaults, DefaultsObject) \<Rightarrow> (defaults(''hourIncrement'' \<mapsto> JNum newIncrement), DefaultsObject)
      | (defaults, NewObject s) \<Rightarrow> (defaults, NewObject (s(''hourIncrement'' \<mapsto> JNum newIncrement))))"

text \<open>
  \<open>exportToCSV\<close> of the service, lines 305 to 318. \<open>Array.prototype.join\<close> and
  \<open>replace(/"/g, '""')\<close> are written out; the quote is \<open>CHR 0x22\<close>, the line feed
  \<open>CHR 0x0A\<close>. The conversion of a number of hours to a string is the parameter
  \<open>numToString\<close>; the sum of the hours is the sum of reals.
\<close>

fun join :: "string \<Rightarrow> string list \<Rightarrow> string" where
  "join sep [] = []"
| "join sep [x] = x"
| "join sep (x # y # ys) = x @ sep @ join sep (y # ys)"

definition doubleQuotes :: "string \<Rightarrow> string" where
  "doubleQuotes s = concat (map (\<lambda>c. if c = CHR 0x22 then [CHR 0x22, CHR 0x22] else [c]) s)"

definition totalHours :: "TimeEntry \<Rightarrow> number" where
  "totalHours entry = (case logs entry of None \<Rightarrow> 0 | Some ls \<Rightarrow> foldl (\<lambda>s l. s + hours l) 0 ls)"

definition serviceCsvRow :: "(number \<Rightarrow> string) \<Rightarrow> TimeEntry \<Rightarrow> string" where
  "serviceCsvRow numToString entry =
     join '',''
       [toString (workItemId entry),
        [CHR 0x22] @ doubleQuotes (or_str (workItemTitle entry) []) @ [CHR 0x22],
        or_str (workItemType entry) [],
        numToString (totalHours entry),
        or_str (userName entry) (userId entry),
        [CHR 0x22] @ doubleQuotes (description entry) @ [CHR 0x22],
        (case updatedAt entry of None \<Rightarrow> [] | Some u \<Rightarrow> u)]"

definition service_exportToCSV :: "(number \<Rightarrow> string) \<Rightarrow> TimeEntry list \<Rightarrow> string" where
  "service_exportToCSV numToString entries =
     join [CHR 0x0A]
       (join '','' [''Work Item ID'', ''Work Item Title'', ''Type'', ''Hours'', ''User'',
                    ''Description'', ''Last Updated'']
        # map (serviceCsvRow numToString) entries)"

section \<open>reports.ts\<close>

text \<open>A row of the report: one daily log with the fields of its entry (type \<open>FlatLog\<close>).\<close>

record FlatLog = Meta +
  log_date :: string
  log_hours :: number

text \<open>\<open>loadAllEntries\<close>, lines 115 to 143: the entries and their flattened logs.\<close>

definition flatLogsOf :: "TimeEntry \<Rightarrow> FlatLog list" where
  "flatLogsOf entry =
     (case logs entry of
        None \<Rightarrow> []
      | Some ls \<Rightarrow>
         map (\<lambda>log'. \<lparr>workItemId = workItemId entry,
                      workItemTitle = workItemTitle entry,
                      workItemType = workItemType entry,
                      projectId = projectId entry,
                      projectName = projectName entry,
                      description = description entry,
                      userId = userId entry,
                      userName = userName entry,
                      log_date = date log',
                      log_hours = hours log'\<rparr>) ls)"

definition loadAllEntries :: "strToNumber \<Rightarrow> world \<Rightarrow> TimeEntry list \<Rightarrow> TimeEntry list \<times> FlatLog list" where
  "loadAllEntries N w documents =
     (case getAllTimeEntries N w documents of
        Inl e \<Rightarrow> ([], [])
      | Inr allEntries \<Rightarrow> (allEntries, concat (map flatLogsOf allEntries)))"

text \<open>
  \<open>applyFilters\<close>, lines 249 to 282. The values of the filter controls are strings; the
  control of the work item id may be missing from the page. \<open>v || undefined\<close> makes an empty
  value absent. JavaScript compares strings by their code units; \<open><\<close> on \<open>string\<close> is the
  lexicographic order of the characters' codes, the same order on ASCII text such as dates.
\<close>

record FilterControls =
  filterStartDate :: string
  filterEndDate :: string
  filterUser :: string
  filterWorkItemType :: string
  filterWorkItemId :: "string option"

record TimeReportFilter =
  startDate :: "string option"
  endDate :: "string option"
  filter_userId :: "string option"
  filter_workItemType :: "string option"

definition or_undefined :: "string \<Rightarrow> string option" where
  "or_undefined v = (if v = [] then None else Some v)"

text \<open>The callback of \<open>flatLogs.filter\<close>, lines 261 to 278.\<close>

definition keepLog :: "TimeReportFilter \<Rightarrow> string option \<Rightarrow> FlatLog \<Rightarrow> bool" where
  "keepLog currentFilter workItemIdFilter log' =
     (if (case startDate currentFilter of None \<Rightarrow> False | Some s \<Rightarrow> s \<noteq> [] \<and> log_date log' < s)
        then False
      else if (case endDate currentFilter of None \<Rightarrow> False | Some e \<Rightarrow> e \<noteq> [] \<and> log_date log' > e)
        then False
      else if (case filter_userId currentFilter of None \<Rightarrow> False | Some u \<Rightarrow> u \<noteq> [] \<and> userId log' \<noteq> u)
        then False
      else if (case filter_workItemType currentFilter of
                 None \<Rightarrow> False | Some t \<Rightarrow> t \<noteq> [] \<and> workItemType log' \<noteq> Some t)
        then False
      else if (case workItemIdFilter of
                 None \<Rightarrow> False | Some i \<Rightarrow> i \<noteq> [] \<and> toString (workItemId log') \<noteq> i)
        then False
      else True)"

definition applyFilters :: "FilterControls \<Rightarrow> FlatLog list \<Rightarrow> FlatLog list" where
  "applyFilters ui flatLogs =
     (let currentFilter = \<lparr>startDate = or_undefined (filterStartDate ui),
                           endDate = or_undefined (filterEndDate ui),
                           filter_userId = or_undefined (filterUser ui),
                           filter_workItemType = or_undefined (filterWorkItemType ui)\<rparr>;
          workItemIdFilter = (case filterWorkItemId ui of None \<Rightarrow> None | Some v \<Rightarrow> or_undefined v)
      in filter (keepLog currentFilter workItemIdFilter) flatLogs)"

text \<open>
  \<open>exportToCSV\<close>, lines 411 to 442: the text of the file, \<open>None\<close> when there is nothing to
  export. \<open>String(log.hours)\<close> is the parameter \<open>numToString\<close>.
\<close>

definition csvRow :: "(number \<Rightarrow> string) \<Rightarrow> FlatLog \<Rightarrow> string" where
  "csvRow numToString log' =
     join '',''
       [CHR ''#'' # toString (workItemId log'),
        or_str (workItemType log') ''-'',
        numToString (log_hours log'),
        or_str (userName log') (if userId log' = [] then ''-'' else userId log'),
        [CHR 0x22] @ doubleQuotes (description log') @ [CHR 0x22],
        log_date log']"

definition exportToCSV :: "(number \<Rightarrow> string) \<Rightarrow> FlatLog list \<Rightarrow> string option" where
  "exportToCSV numToString filteredLogs =
     (if filteredLogs = [] then None
      else Some (join [CHR 0x0A]
                   (''Work Item,Type,Hours,User,Description,Date'' # map (csvRow numToString) filteredLogs)))"

section \<open>The properties of the spec\<close>

text \<open>
  The criteria of the spec's \<open>filter\<close>: a date range, a user, a work item type and a work
  item id, each of them absent (\<open>None\<close>) or provided. A row satisfies them when it satisfies
  each provided criterion.
\<close>

record Criteria =
  rangeStart :: "string option"
  rangeEnd :: "string option"
  byUser :: "string option"
  byType :: "string option"
  byWorkItemId :: "string option"

definition satisfies :: "Criteria \<Rightarrow> FlatLog \<Rightarrow> bool" where
  "satisfies cr row \<longleftrightarrow>
     (case rangeStart cr of None \<Rightarrow> True | Some s \<Rightarrow> s \<le> log_date row) \<and>
     (case rangeEnd cr of None \<Rightarrow> True | Some e \<Rightarrow> log_date row \<le> e) \<and>
     (case byUser cr of None \<Rightarrow> True | Some u \<Rightarrow> userId row = u) \<and>
     (case byType cr of None \<Rightarrow> True | Some t \<Rightarrow> workItemType row = Some t) \<and>
     (case byWorkItemId cr of None \<Rightarrow> True | Some i \<Rightarrow> toString (workItemId row) = i)"

text \<open>The criteria the filter controls provide: an empty control provides none.\<close>

definition criteriaOf :: "FilterControls \<Rightarrow> Criteria" where
  "criteriaOf ui =
     \<lparr>rangeStart = (if filterStartDate ui = [] then None else Some (filterStartDate ui)),
      rangeEnd = (if filterEndDate ui = [] then None else Some (filterEndDate ui)),
      byUser = (if filterUser ui = [] then None else Some (filterUser ui)),
      byType = (if filterWorkItemType ui = [] then None else Some (filterWorkItemType ui)),
      byWorkItemId = (case filterWorkItemId ui of
                        None \<Rightarrow> None | Some v \<Rightarrow> if v = [] then None else Some v)\<rparr>"

text \<open>
  Modelled from the spec: the "standard CSV parser honoring quoting rules" of the round-trip
  property is not part of the repository. This one reads records separated by line feeds
  and fields separated by commas; a field that starts with a quote runs to its closing
  quote, and a doubled quote inside it is one quote.
\<close>

datatype csvState = FieldStart | Unquoted | Quoted | QuoteSeen

fun parseCSV_from :: "csvState \<Rightarrow> string \<Rightarrow> string list \<Rightarrow> string list list \<Rightarrow> string \<Rightarrow> string list list" where
  "parseCSV_from s cur row rows [] = rows @ [row @ [cur]]"
| "parseCSV_from Quoted cur row rows (c # cs) =
     (if c = CHR 0x22 then parseCSV_from QuoteSeen cur row rows cs
      else parseCSV_from Quoted (cur @ [c]) row rows cs)"
| "parseCSV_from QuoteSeen cur row rows (c # cs) =
     (if c = CHR 0x22 then parseCSV_from Quoted (cur @ [c]) row rows cs
      else if c = CHR '','' then parseCSV_from FieldStart [] (row @ [cur]) rows cs
      else if c = CHR 0x0A then parseCSV_from FieldStart [] [] (rows @ [row @ [cur]]) cs
      else parseCSV_from Unquoted (cur @ [c]) row rows cs)"
| "parseCSV_from FieldStart cur row rows (c # cs) =
     (if c = CHR 0x22 then parseCSV_from Quoted [] row rows cs
      else if c = CHR '','' then parseCSV_from FieldStart [] (row @ [cur]) rows cs
      else if c = CHR 0x0A then parseCSV_from FieldStart [] [] (rows @ [row @ [cur]]) cs
      else parseCSV_from Unquoted (cur @ [c]) row rows cs)"
| "parseCSV_from Unquoted cur row rows (c # cs) =
     (if c = CHR '','' then parseCSV_from FieldStart [] (row @ [cur]) rows cs
      else if c = CHR 0x0A then parseCSV_from FieldStart [] [] (rows @ [row @ [cur]]) cs
      else parseCSV_from Unquoted (cur @ [c]) row rows cs)"

definition parseCSV :: "string \<Rightarrow> string list list" where
  "parseCSV text = parseCSV_from FieldStart [] [] [] text"

text \<open>The fields of a row as the export writes them, which a round trip has to give back.\<close>

definition rowFields :: "(number \<Rightarrow> string) \<Rightarrow> FlatLog \<Rightarrow> string list" where
  "rowFields numToString log' =
     [CHR ''#'' # toString (workItemId log'),
      or_str (workItemType log') ''-'',
      numToString (log_hours log'),
      or_str (userName log') (if userId log' = [] then ''-'' else userId log'),
      description log',
      log_date log']"

section \<open>Sequences of calls\<close>

text \<open>
  One call of \<open>setTimeEntry\<close>: the world during it, the argument \<open>entry\<close> and the comment.
  \<open>runCalls\<close> makes the calls one after the other, each on the store the previous one left.
\<close>

type_synonym call = "world \<times> EntryInput \<times> string option"

fun runCalls :: "strToNumber \<Rightarrow> store \<Rightarrow> call list \<Rightarrow> store" where
  "runCalls N st [] = st"
| "runCalls N st ((w, entry, comment) # cs) = runCalls N (snd (setTimeEntry N w st entry comment)) cs"

definition no_fault :: "world \<Rightarrow> bool" where
  "no_fault w \<longleftrightarrow>
     dataManager_error w = None \<and> getDocument_error w = None \<and> setDocument_error w = None"

text \<open>The calls are for the pair \<open>(wid, uid)\<close> and no promise rejects during them.\<close>

definition calls_for :: "idval \<Rightarrow> string \<Rightarrow> call list \<Rightarrow> bool" where
  "calls_for wid uid cs =
     list_all (\<lambda>(w, entry, comment). no_fault w \<and> workItemId entry = wid \<and> userId entry = uid) cs"




text \<open>The dates and hours written by a sequence of calls, in the order of the calls.\<close>

definition writes :: "call list \<Rightarrow> (string \<times> number) list" where
  "writes cs = map (\<lambda>(w, entry, comment). (entry_date entry, entry_hours entry)) cs"

text \<open>The value most recently written for a date: the last pair with that date.\<close>

definition lastWritten :: "(string \<times> number) list \<Rightarrow> string \<Rightarrow> number option" where
  "lastWritten ws d = map_of (rev ws) d"

text \<open>The distinct elements of a list, in the order of their first occurrence.\<close>

definition firstOcc :: "'a list \<Rightarrow> 'a list" where
  "firstOcc xs = rev (remdups (rev xs))"

text \<open>What the store holds for an id: the logs and the audit log of the document there.\<close>

definition logsAt :: "store \<Rightarrow> string \<Rightarrow> TimeLog list" where
  "logsAt st k = (case st k of None \<Rightarrow> [] | Some doc \<Rightarrow> (case logs doc of None \<Rightarrow> [] | Some ls \<Rightarrow> ls))"

definition auditAt :: "store \<Rightarrow> string \<Rightarrow> AuditLogEntry list" where
  "auditAt st k = (case st k of None \<Rightarrow> [] | Some doc \<Rightarrow> auditLog doc)"

text \<open>Replace the hours of the first log of a date, or append a log for it.\<close>

fun upsertLog :: "string \<Rightarrow> number \<Rightarrow> TimeLog list \<Rightarrow> TimeLog list" where
  "upsertLog d h [] = [\<lparr>date = d, hours = h\<rparr>]"
| "upsertLog d h (l # ls) = (if date l = d then l\<lparr>hours := h\<rparr> # ls else l # upsertLog d h ls)"

text \<open>The entry \<open>getTimeEntry\<close> returns when nothing fails, and the logs of an optional entry.\<close>

definition readBack :: "strToNumber \<Rightarrow> world \<Rightarrow> store \<Rightarrow> string \<Rightarrow> TimeEntry option" where
  "readBack N w st k = map_option (\<lambda>doc. normalizeWorkItemId N (legacyShim (read_now w) doc)) (st k)"

definition logsOf :: "TimeEntry option \<Rightarrow> TimeLog list" where
  "logsOf ex = (case ex of None \<Rightarrow> [] | Some e \<Rightarrow> (case logs e of None \<Rightarrow> [] | Some ls \<Rightarrow> ls))"

definition has_logs :: "store \<Rightarrow> string \<Rightarrow> bool" where
  "has_logs st k \<longleftrightarrow> (\<exists>doc. st k = Some doc \<and> logs doc = Some (logsAt st k))"

section \<open>Concrete inputs\<close>

text \<open>
  A conversion for the parameter \<open>Number\<close> in closed examples: it agrees with JavaScript on
  strings of decimal digits (the empty string is 0) and gives NaN for every other string.
\<close>

definition digitValue :: "char \<Rightarrow> int option" where
  "digitValue c = map_option int (findIndex (\<lambda>d. d = c) ''0123456789'')"

fun Number_digits_from :: "int \<Rightarrow> string \<Rightarrow> int option" where
  "Number_digits_from acc [] = Some acc"
| "Number_digits_from acc (c # cs) =
     (case digitValue c of None \<Rightarrow> None | Some v \<Rightarrow> Number_digits_from (10 * acc + v) cs)"

definition Number_digits :: strToNumber where
  "Number_digits s = Number_digits_from 0 s"

definition emptyStore :: store where
  "emptyStore = Map.empty"

text \<open>A world in which nothing fails, at clock reading \<open>t\<close>.\<close>

definition calm :: "string \<Rightarrow> world" where
  "calm t = \<lparr>dataManager_error = None, getDocument_error = None, setDocument_error = None,
             now = t, read_now = t\<rparr>"

text \<open>The entry of the spec's example: work item 42, user \<open>u1\<close>.\<close>

definition entry42 :: "string \<Rightarrow> number \<Rightarrow> EntryInput" where
  "entry42 d h =
     \<lparr>workItemId = IdNum 42, workItemTitle = Some ''Fix login'', workItemType = Some ''Bug'',
      projectId = ''p1'', projectName = None, description = [], userId = ''u1'',
      userName = Some ''Ann'', entry_hours = h, entry_date = d\<rparr>"

text \<open>Three calls for that pair: two dates, the first written twice.\<close>

definition calls2 :: "call list" where
  "calls2 = [(calm ''2024-01-01T09:00:00.000Z'', entry42 ''2024-01-01'' 3, None),
             (calm ''2024-01-02T09:00:00.000Z'', entry42 ''2024-01-02'' 4, Some ''review'')]"

definition calls3 :: "call list" where
  "calls3 = calls2 @ [(calm ''2024-01-02T17:00:00.000Z'', entry42 ''2024-01-01'' 5, None)]"

text \<open>Worlds in which one call of the store fails.\<close>

definition readFails :: "string \<Rightarrow> world" where
  "readFails t = (calm t)\<lparr>getDocument_error := Some (Error ''network'')\<rparr>"

definition writeFails :: "string \<Rightarrow> world" where
  "writeFails t = (calm t)\<lparr>setDocument_error := Some (Error ''network'')\<rparr>"

text \<open>A legacy document: the scalar \<open>hours\<close>, no \<open>logs\<close>, no audit log.\<close>

definition legacyDoc :: TimeEntry where
  "legacyDoc =
     \<lparr>workItemId = IdStr ''42'', workItemTitle = Some ''Fix login'', workItemType = Some ''Bug'',
      projectId = ''p1'', projectName = None, description = [], userId = ''u1'',
      userName = Some ''Ann'', entryId = ''time-entry-42-u1'', logs = None,
      createdAt = Some ''2023-05-01T08:00:00.000Z'', updatedAt = Some ''2023-05-02T10:30:00.000Z'',
      auditLog = [], etag = Some 7, top_hours = Some 2.5, top_date = None\<rparr>"

text \<open>Whole hours as JavaScript prints them, for the parameter \<open>numToString\<close> in examples.\<close>

definition wholeHours :: "number \<Rightarrow> string" where
  "wholeHours x = showInt \<lfloor>x\<rfloor>"

text \<open>A row of the report whose user has a display name with a comma.\<close>

definition janeRow :: FlatLog where
  "janeRow =
     \<lparr>workItemId = IdNum 7, workItemTitle = Some ''Fix login'', workItemType = Some ''Bug'',
      projectId = ''p1'', projectName = None,
      description = ''say '' @ [CHR 0x22] @ ''hi'' @ [CHR 0x22] @ '', then go'',
      userId = ''u2'', userName = Some ''Doe, Jane'',
      log_date = ''2024-01-01'', log_hours = 2\<rparr>"

text \<open>The same document without its timestamps.\<close>

definition undatedDoc :: TimeEntry where
  "undatedDoc = legacyDoc\<lparr>createdAt := None, updatedAt := None\<rparr>"

text \<open>Filter controls: every one empty; and a date range with a work item id.\<close>

definition noControls :: FilterControls where
  "noControls = \<lparr>filterStartDate = [], filterEndDate = [], filterUser = [],
                  filterWorkItemType = [], filterWorkItemId = None\<rparr>"

definition januaryItem7 :: FilterControls where
  "januaryItem7 = \<lparr>filterStartDate = ''2024-01-01'', filterEndDate = ''2024-01-31'',
                    filterUser = [], filterWorkItemType = [], filterWorkItemId = Some ''7''\<rparr>"

definition reportRows :: "FlatLog list" where
  "reportRows = [janeRow\<lparr>log_date := ''2023-12-31''\<rparr>,
                 janeRow,
                 janeRow\<lparr>workItemId := IdNum 8\<rparr>,
                 janeRow\<lparr>log_date := ''2024-01-31'', log_hours := 4\<rparr>,
                 janeRow\<lparr>log_date := ''2024-02-01''\<rparr>]"

text \<open>A world in which the data manager cannot be obtained.\<close>

definition noManager :: "string \<Rightarrow> world" where
  "noManager t = (calm t)\<lparr>dataManager_error := Some (Error ''token'')\<rparr>"

text \<open>An entry of the user named \<open>Doe, Jane\<close>, with two logs.\<close>

definition janeEntry :: TimeEntry where
  "janeEntry =
     \<lparr>workItemId = IdNum 7, workItemTitle = Some ''Fix login, again'', workItemType = Some ''Bug'',
      projectId = ''p1'', projectName = None, description = ''see #7'', userId = ''u2'',
      userName = Some ''Doe, Jane'', entryId = ''time-entry-7-u2'',
      logs = Some [\<lparr>date = ''2024-01-01'', hours = 2\<rparr>, \<lparr>date = ''2024-01-02'', hours = 1\<rparr>],
      createdAt = Some ''2024-01-01T09:00:00.000Z'', updatedAt = Some ''2024-01-02T09:00:00.000Z'',
      auditLog = [], etag = Some 2, top_hours = Some 1, top_date = Some ''2024-01-02''\<rparr>"



section \<open>Lemmas about one call and about sequences of calls\<close>

lemma findIndex_upsert:
  "(case findIndex (\<lambda>l. date l = d) ls of
      Some i \<Rightarrow> ls[i := (ls ! i)\<lparr>hours := h\<rparr>]
    | None \<Rightarrow> ls @ [\<lparr>date = d, hours = h\<rparr>]) = upsertLog d h ls"
  by (induction ls) (auto split: option.splits)

lemma findIndex_Some: "findIndex P xs = Some i \<Longrightarrow> i < length xs \<and> P (xs ! i)"
  by (induction xs arbitrary: i) (auto split: if_splits)

lemma findIndex_prev:
  "(case findIndex (\<lambda>l. date l = d) ls of Some i \<Rightarrow> hours (ls ! i) | None \<Rightarrow> 0)
     = (case map_of (map (\<lambda>l. (date l, hours l)) ls) d of Some h \<Rightarrow> h | None \<Rightarrow> 0)"
  by (induction ls) (auto split: option.splits)

lemma getTimeEntry_no_fault:
  "no_fault w \<Longrightarrow> getTimeEntry N w st k = Inr (readBack N w st k)"
  by (simp add: getTimeEntry_def no_fault_def readBack_def split: option.splits)

lemma setTimeEntry_no_fault:
  "no_fault w \<Longrightarrow>
   setTimeEntry N w st e c =
     (let t = timeEntryOf (now w) (readBack N w st (generateId (workItemId e) (userId e))) e c
      in (Inr t, store_setDocument st t))"
  by (simp add: setTimeEntry_def getTimeEntry_def readBack_def no_fault_def Let_def split: option.splits)

lemma logs_timeEntryOf:
  "logs (timeEntryOf clock ex entry c) =
     Some (upsertLog (entry_date entry) (entry_hours entry) (logsOf ex))"
  by (simp add: timeEntryOf_def Let_def findIndex_upsert logsOf_def)

lemma entryId_timeEntryOf:
  "entryId (timeEntryOf clock ex entry c) = generateId (workItemId entry) (userId entry)"
  by (simp add: timeEntryOf_def Let_def)

lemma auditLog_timeEntryOf:
  "\<exists>ev. auditLog (timeEntryOf clock ex entry c) = (case ex of None \<Rightarrow> [] | Some e \<Rightarrow> auditLog e) @ [ev]
     \<and> timestamp ev = clock \<and> newHours ev = entry_hours entry
     \<and> action ev = (if ex = None then Created else Updated)
     \<and> previousHours ev = (case map_of (map (\<lambda>l. (date l, hours l)) (logsOf ex)) (entry_date entry) of Some h \<Rightarrow> h | None \<Rightarrow> 0)"
  by (auto simp: timeEntryOf_def Let_def findIndex_prev logsOf_def dest: findIndex_Some split: option.splits)

lemma logsAt_store_setDocument:
  "logsAt (store_setDocument st t) (entryId t) = (case logs t of None \<Rightarrow> [] | Some ls \<Rightarrow> ls)"
  by (simp add: logsAt_def store_setDocument_def)

lemma auditAt_store_setDocument:
  "auditAt (store_setDocument st t) (entryId t) = auditLog t"
  by (simp add: auditAt_def store_setDocument_def)

lemma logsOf_readBack:
  "st k = None \<or> (\<exists>doc. st k = Some doc \<and> logs doc \<noteq> None) \<Longrightarrow> logsOf (readBack N w st k) = logsAt st k"
  by (auto simp: logsOf_def readBack_def logsAt_def normalizeWorkItemId_def legacyShim_def split: option.splits)

lemma map_date_upsert:
  "map date (upsertLog d h ls) = (if d \<in> set (map date ls) then map date ls else map date ls @ [d])"
  by (induction ls) auto

lemma firstOcc_snoc: "firstOcc (xs @ [x]) = (if x \<in> set xs then firstOcc xs else firstOcc xs @ [x])"
  by (simp add: firstOcc_def)

lemma lastWritten_snoc: "lastWritten (ws @ [(d, h)]) d' = (if d' = d then Some h else lastWritten ws d')"
  by (simp add: lastWritten_def)

lemma set_upsert:
  "distinct (map date ls) \<Longrightarrow> l \<in> set (upsertLog d h ls) \<Longrightarrow>
     (date l = d \<and> hours l = h) \<or> (date l \<noteq> d \<and> l \<in> set ls)"
  by (induction ls) (auto split: if_splits simp: image_iff)

lemma runCalls_snoc: "runCalls N st (cs @ [c]) = runCalls N (runCalls N st cs) [c]"
  by (induction cs arbitrary: st) auto

lemma runCalls_append: "runCalls N st (cs @ ds) = runCalls N (runCalls N st cs) ds"
  by (induction cs arbitrary: st) auto

lemma set_firstOcc: "set (firstOcc xs) = set xs"
  by (simp add: firstOcc_def)

lemma distinct_firstOcc: "distinct (firstOcc xs)"
  by (simp add: firstOcc_def)

lemma length_firstOcc: "length (firstOcc xs) = card (set xs)"
  by (simp add: firstOcc_def length_remdups_card_conv)

lemma calls_for_snoc:
  "calls_for wid uid (cs @ [(w, e, c)]) \<longleftrightarrow>
     calls_for wid uid cs \<and> no_fault w \<and> workItemId e = wid \<and> userId e = uid"
  by (simp add: calls_for_def)

lemma writes_snoc: "writes (cs @ [(w, e, c)]) = writes cs @ [(entry_date e, entry_hours e)]"
  by (simp add: writes_def)

text \<open>One call without a fault, seen at the id it writes.\<close>

lemma step_doc:
  assumes "no_fault w" "k = generateId (workItemId e) (userId e)"
  shows "\<exists>doc. snd (setTimeEntry N w st e c) k = Some doc
           \<and> logs doc = Some (upsertLog (entry_date e) (entry_hours e) (logsOf (readBack N w st k)))"
  using assms
  by (simp add: setTimeEntry_no_fault Let_def store_setDocument_def entryId_timeEntryOf logs_timeEntryOf)

lemma step_logsAt:
  assumes "no_fault w" "k = generateId (workItemId e) (userId e)"
    "st k = None \<or> (\<exists>doc. st k = Some doc \<and> logs doc \<noteq> None)"
  shows "logsAt (snd (setTimeEntry N w st e c)) k = upsertLog (entry_date e) (entry_hours e) (logsAt st k)"
  using step_doc[OF assms(1,2), of N st c] logsOf_readBack[of st k N w] assms(3)
  by (auto simp: logsAt_def)

lemma step_has_logs:
  assumes "no_fault w" "k = generateId (workItemId e) (userId e)"
  shows "has_logs (snd (setTimeEntry N w st e c)) k"
  using step_doc[OF assms, of N st c] by (auto simp: has_logs_def logsAt_def)

lemma run_has_logs:
  assumes "calls_for wid uid cs" "cs \<noteq> []"
  shows "has_logs (runCalls N st cs) (generateId wid uid)"
  using assms
proof (induction cs rule: rev_induct)
  case Nil
  then show ?case by simp
next
  case (snoc x cs)
  obtain w e c where x: "x = (w, e, c)" by (cases x)
  from snoc.prems x have "no_fault w" "workItemId e = wid" "userId e = uid"
    by (simp_all add: calls_for_snoc)
  then show ?case
    using step_has_logs[of w "generateId wid uid" e N "runCalls N st cs" c]
    by (simp add: runCalls_append x)
qed

lemma run_logs:
  assumes "calls_for wid uid cs" "st (generateId wid uid) = None"
  shows "map date (logsAt (runCalls N st cs) (generateId wid uid)) = firstOcc (map fst (writes cs))
       \<and> (\<forall>l \<in> set (logsAt (runCalls N st cs) (generateId wid uid)).
             lastWritten (writes cs) (date l) = Some (hours l))"
  using assms(1)
proof (induction cs rule: rev_induct)
  case Nil
  then show ?case using assms(2) by (simp add: logsAt_def firstOcc_def writes_def)
next
  case (snoc x cs)
  obtain w e c where x: "x = (w, e, c)" by (cases x)
  let ?k = "generateId wid uid"
  let ?st = "runCalls N st cs"
  let ?L = "logsAt ?st ?k"
  from snoc.prems x have cf: "calls_for wid uid cs" and nf: "no_fault w"
    and ids: "workItemId e = wid" "userId e = uid"
    by (simp_all add: calls_for_snoc)
  from snoc.IH[OF cf] have dates: "map date ?L = firstOcc (map fst (writes cs))"
    and last: "\<forall>l \<in> set ?L. lastWritten (writes cs) (date l) = Some (hours l)"
    by simp_all
  have wf: "?st ?k = None \<or> (\<exists>doc. ?st ?k = Some doc \<and> logs doc \<noteq> None)"
  proof (cases "cs = []")
    case True
    then show ?thesis using assms(2) by simp
  next
    case False
    from run_has_logs[OF cf False, of N st] show ?thesis by (auto simp: has_logs_def)
  qed
  have step: "logsAt (runCalls N st (cs @ [x])) ?k = upsertLog (entry_date e) (entry_hours e) ?L"
    using step_logsAt[of w ?k e ?st N c] nf wf ids by (simp add: runCalls_append x)
  have dist: "distinct (map date ?L)"
    by (simp only: dates distinct_firstOcc)
  have sets: "set (map date ?L) = set (map fst (writes cs))"
    by (simp only: dates set_firstOcc)
  have A: "map date (upsertLog (entry_date e) (entry_hours e) ?L) = firstOcc (map fst (writes (cs @ [x])))"
    unfolding map_date_upsert x writes_snoc using sets dates
    by (simp add: firstOcc_snoc)
  have B: "lastWritten (writes (cs @ [x])) (date l) = Some (hours l)"
    if "l \<in> set (upsertLog (entry_date e) (entry_hours e) ?L)" for l
    using set_upsert[OF dist that] last
    by (auto simp: x writes_snoc lastWritten_snoc)
  show ?case unfolding step using A B by blast
qed

lemma auditLog_readBack:
  "(case readBack N w st k of None \<Rightarrow> [] | Some e \<Rightarrow> auditLog e) = auditAt st k"
  by (simp add: readBack_def auditAt_def normalizeWorkItemId_def legacyShim_def split: option.splits)

lemma step_audit:
  assumes "no_fault w" "k = generateId (workItemId e) (userId e)"
  shows "\<exists>ev. auditAt (snd (setTimeEntry N w st e c)) k = auditAt st k @ [ev]
     \<and> timestamp ev = now w \<and> newHours ev = entry_hours e
     \<and> action ev = (if st k = None then Created else Updated)
     \<and> previousHours ev =
         (case map_of (map (\<lambda>l. (date l, hours l)) (logsOf (readBack N w st k))) (entry_date e) of
            Some h \<Rightarrow> h | None \<Rightarrow> 0)"
proof -
  let ?ex = "readBack N w st k"
  let ?t = "timeEntryOf (now w) ?ex e c"
  from auditLog_timeEntryOf[of "now w" ?ex e c] obtain ev where
    ev: "auditLog ?t = (case ?ex of None \<Rightarrow> [] | Some x \<Rightarrow> auditLog x) @ [ev]"
      "timestamp ev = now w" "newHours ev = entry_hours e"
      "action ev = (if ?ex = None then Created else Updated)"
      "previousHours ev =
         (case map_of (map (\<lambda>l. (date l, hours l)) (logsOf ?ex)) (entry_date e) of
            Some h \<Rightarrow> h | None \<Rightarrow> 0)"
    by blast
  have "auditAt (snd (setTimeEntry N w st e c)) k = auditLog ?t"
    using assms auditAt_store_setDocument[of st ?t]
    by (simp add: setTimeEntry_no_fault Let_def entryId_timeEntryOf)
  moreover have "(?ex = None) = (st k = None)"
    by (simp add: readBack_def)
  ultimately show ?thesis
    using ev by (simp add: auditLog_readBack)
qed

lemma run_audit:
  assumes "calls_for wid uid cs"
  shows "\<exists>evs. auditAt (runCalls N st cs) (generateId wid uid) = auditAt st (generateId wid uid) @ evs
     \<and> length evs = length cs
     \<and> map timestamp evs = map (\<lambda>(w, e, c). now w) cs
     \<and> map newHours evs = map snd (writes cs)"
  using assms
proof (induction cs rule: rev_induct)
  case Nil
  then show ?case by (simp add: writes_def)
next
  case (snoc x cs)
  obtain w e c where x: "x = (w, e, c)" by (cases x)
  let ?k = "generateId wid uid"
  from snoc.prems x have cf: "calls_for wid uid cs" and nf: "no_fault w"
    and ids: "workItemId e = wid" "userId e = uid"
    by (simp_all add: calls_for_snoc)
  from snoc.IH[OF cf] obtain evs where
    evs: "auditAt (runCalls N st cs) ?k = auditAt st ?k @ evs" "length evs = length cs"
      "map timestamp evs = map (\<lambda>(w, e, c). now w) cs" "map newHours evs = map snd (writes cs)"
    by blast
  from step_audit[of w ?k e N "runCalls N st cs" c] nf ids obtain ev where
    ev: "auditAt (runCalls N st (cs @ [(w, e, c)])) ?k = auditAt (runCalls N st cs) ?k @ [ev]"
      "timestamp ev = now w" "newHours ev = entry_hours e"
    by (auto simp: runCalls_append)
  show ?case
    unfolding x
    by (rule exI[of _ "evs @ [ev]"]) (simp add: ev evs writes_snoc split_def)
qed




lemma key42: "generateId (IdNum 42) ''u1'' = ''time-entry-42-u1''"
  by (simp add: generateId_def toString_def showInt_def showNat.simps digit_char_def)

lemma calls_for3: "calls_for (IdNum 42) ''u1'' calls3"
  by (simp add: calls_for_def calls3_def calls2_def calm_def entry42_def no_fault_def)

lemma writes3: "writes calls3 = [(''2024-01-01'', 3), (''2024-01-02'', 4), (''2024-01-01'', 5)]"
  by (simp add: writes_def calls3_def calls2_def entry42_def)


lemma audit_append_no_fault:
  assumes "calls_for wid uid (cs1 @ cs2)"
  shows "\<exists>evs. auditAt (runCalls N st (cs1 @ cs2)) (generateId wid uid)
                 = auditAt (runCalls N st cs1) (generateId wid uid) @ evs
     \<and> length evs = length cs2
     \<and> map timestamp evs = map (\<lambda>(w, e, c). now w) cs2
     \<and> map newHours evs = map snd (writes cs2)
     \<and> length (auditAt (runCalls N st (cs1 @ cs2)) (generateId wid uid))
         = length (auditAt st (generateId wid uid)) + length cs1 + length cs2"
proof -
  from assms have c1: "calls_for wid uid cs1" and c2: "calls_for wid uid cs2"
    by (simp_all add: calls_for_def)
  from run_audit[OF c2, of N "runCalls N st cs1"] obtain evs where
    evs: "auditAt (runCalls N st (cs1 @ cs2)) (generateId wid uid)
                 = auditAt (runCalls N st cs1) (generateId wid uid) @ evs"
      "length evs = length cs2" "map timestamp evs = map (\<lambda>(w, e, c). now w) cs2"
      "map newHours evs = map snd (writes cs2)"
    by (auto simp: runCalls_append)
  from run_audit[OF c1, of N st] obtain evs1 where
    "auditAt (runCalls N st cs1) (generateId wid uid) = auditAt st (generateId wid uid) @ evs1"
    "length evs1 = length cs1"
    by blast
  with evs show ?thesis by auto
qed









section \<open>The daily logs of a record\<close>

text \<open>
  Claim C1. Calls of \<open>setTimeEntry\<close> for one pair (work item, user), none of them failing,
  each reading what the previous one wrote, starting with no document for the pair: the
  logs of the stored record have pairwise distinct dates, there are as many logs as
  distinct dates written, they stand in the order in which their dates were first written
  (a later write for a date changes the hours of its log where it stands and appends
  nothing), and the hours of each log are the value most recently written for its date.
\<close>

theorem setTimeEntry_one_log_per_date:
  assumes "calls_for wid uid cs" and "st (generateId wid uid) = None"
  shows "distinct (map date (logsAt (runCalls N st cs) (generateId wid uid)))
       \<and> length (logsAt (runCalls N st cs) (generateId wid uid)) = card (set (map fst (writes cs)))
       \<and> map date (logsAt (runCalls N st cs) (generateId wid uid)) = firstOcc (map fst (writes cs))
       \<and> (\<forall>l \<in> set (logsAt (runCalls N st cs) (generateId wid uid)).
             lastWritten (writes cs) (date l) = Some (hours l))
       \<and> (cs \<noteq> [] \<longrightarrow> has_logs (runCalls N st cs) (generateId wid uid))"
proof -
  let ?L = "logsAt (runCalls N st cs) (generateId wid uid)"
  from run_logs[of wid uid cs st N] assms
  have dates: "map date ?L = firstOcc (map fst (writes cs))"
    and last: "\<forall>l \<in> set ?L. lastWritten (writes cs) (date l) = Some (hours l)"
    by simp_all
  have "distinct (map date ?L)"
    by (simp only: dates distinct_firstOcc)
  moreover have "length ?L = card (set (map fst (writes cs)))"
    using length_firstOcc[of "map fst (writes cs)"] dates
    by (metis length_map)
  ultimately show ?thesis
    using dates last run_has_logs[OF assms(1), of N st] by blast
qed

theorem setTimeEntry_one_log_per_date_witness:
  "calls_for (IdNum 42) ''u1'' calls3 \<and> emptyStore ''time-entry-42-u1'' = None
   \<and> length (logsAt (runCalls Number_digits emptyStore calls3) ''time-entry-42-u1'') = 2
   \<and> map date (logsAt (runCalls Number_digits emptyStore calls3) ''time-entry-42-u1'')
        = [''2024-01-01'', ''2024-01-02'']
   \<and> map hours (logsAt (runCalls Number_digits emptyStore calls3) ''time-entry-42-u1'') = [5, 4]"
proof -
  let ?L = "logsAt (runCalls Number_digits emptyStore calls3) ''time-entry-42-u1''"
  have e: "emptyStore (generateId (IdNum 42) ''u1'') = None"
    by (simp add: emptyStore_def)
  note T = setTimeEntry_one_log_per_date[of "IdNum 42" "''u1''" calls3 emptyStore Number_digits,
      OF calls_for3 e, unfolded key42]
  from T have dates: "map date ?L = [''2024-01-01'', ''2024-01-02'']"
    by (simp add: writes3 firstOcc_def)
  from T have last: "\<forall>l \<in> set ?L. lastWritten (writes calls3) (date l) = Some (hours l)"
    by blast
  from dates have len: "length ?L = 2"
    by (metis length_map length_Cons list.size(3) One_nat_def Suc_1)
  from dates obtain a b where L: "?L = [a, b]" "date a = ''2024-01-01''" "date b = ''2024-01-02''"
    by auto
  from last L have "hours a = 5" "hours b = 4"
    by (simp_all add: writes3 lastWritten_def)
  with L len dates show ?thesis
    by (simp add: calls_for3 emptyStore_def)
qed

section \<open>Concrete evaluations and the decimal rendering of ids\<close>


lemma Number_digits_42: "Number_digits ''42'' = Some 42"
  by (simp add: Number_digits_def digitValue_def)

lemma shim_legacyDoc:
  "legacyShim clock legacyDoc = legacyDoc\<lparr>logs := Some [\<lparr>date = ''2023-05-02'', hours = 2.5\<rparr>]\<rparr>"
  by (simp add: legacyShim_def legacyDoc_def or_str_def)

lemma showInt7: "showInt 7 = ''7''" "showInt 2 = ''2''"
  by (simp_all add: showInt_def showNat.simps digit_char_def)

lemma digitValue_digit_char: "n < 10 \<Longrightarrow> digitValue (digit_char n) = Some (int n)"
proof -
  assume "n < 10"
  then have "n \<in> set [0..<10]" by simp
  moreover have "[0..<10] = [0, 1, 2, 3, 4, 5, 6, 7, 8, 9 :: nat]"
    by (simp add: upt_rec)
  ultimately have "n \<in> set [0, 1, 2, 3, 4, 5, 6, 7, 8, 9 :: nat]" by simp
  then show ?thesis
    by (auto simp: digitValue_def digit_char_def)
qed

lemma Number_digits_from_snoc:
  "Number_digits_from acc (xs @ [c]) =
     (case Number_digits_from acc xs of
        None \<Rightarrow> None
      | Some v \<Rightarrow> (case digitValue c of None \<Rightarrow> None | Some d \<Rightarrow> Some (10 * v + d)))"
  by (induction xs arbitrary: acc) (auto split: option.splits)

lemma Number_digits_showNat: "Number_digits (showNat n) = Some (int n)"
proof (induction n rule: showNat.induct)
  case (1 n)
  show ?case
  proof (cases "n < 10")
    case True
    then show ?thesis
      by (subst showNat.simps) (simp add: Number_digits_def digitValue_digit_char)
  next
    case False
    have "n mod 10 < 10" by simp
    with False 1 show ?thesis
      by (subst showNat.simps)
        (simp add: Number_digits_def Number_digits_from_snoc digitValue_digit_char zdiv_int zmod_int)
  qed
qed

lemma showNat_inj: "showNat m = showNat n \<Longrightarrow> m = n"
  by (metis Number_digits_showNat option.inject of_nat_eq_iff)

lemma toString_IdNum_inj:
  "0 \<le> j \<Longrightarrow> 0 \<le> k \<Longrightarrow> toString (IdNum j) = toString (IdNum k) \<longleftrightarrow> j = k"
  using showNat_inj[of "nat j" "nat k"] by (auto simp: toString_def showInt_def)

lemma showNat_not_Nil: "showNat n \<noteq> []"
  by (subst showNat.simps) simp

section \<open>The audit log of a record\<close>







section \<open>Store failures during a write\<close>

text \<open>
  Claim C6, as amended. \<open>setTimeEntry\<close> propagates a failure to obtain the data manager and
  a failure of the final write, with the store's own error and with nothing written; it
  tries once. A failure of the read of the existing record is not propagated:
  \<open>getTimeEntry\<close> catches it and answers \<open>null\<close>, so the call builds the document of a new
  record and, when the write succeeds, returns it normally. The call fails exactly when
  the data manager or the write fails.
\<close>

theorem setTimeEntry_failures:
  "(dataManager_error w = Some e \<longrightarrow> setTimeEntry N w st entry c = (Inl e, st))
   \<and> (dataManager_error w = None \<and> setDocument_error w = Some e \<longrightarrow>
        setTimeEntry N w st entry c = (Inl e, st))
   \<and> (dataManager_error w = None \<and> getDocument_error w = Some e \<and> setDocument_error w = None \<longrightarrow>
        setTimeEntry N w st entry c
          = (Inr (timeEntryOf (now w) None entry c),
             store_setDocument st (timeEntryOf (now w) None entry c)))
   \<and> (isl (fst (setTimeEntry N w st entry c)) \<longleftrightarrow>
        dataManager_error w \<noteq> None \<or> setDocument_error w \<noteq> None)
   \<and> (isl (fst (setTimeEntry N w st entry c)) \<longrightarrow> snd (setTimeEntry N w st entry c) = st)"
  by (auto simp: setTimeEntry_def getTimeEntry_def Let_def split: option.splits)

theorem setTimeEntry_failures_witness:
  "dataManager_error (writeFails ''2024-01-03T09:00:00.000Z'') = None
   \<and> setDocument_error (writeFails ''2024-01-03T09:00:00.000Z'') = Some (Error ''network'')
   \<and> setTimeEntry Number_digits (writeFails ''2024-01-03T09:00:00.000Z'') emptyStore
         (entry42 ''2024-01-03'' 1) None = (Inl (Error ''network''), emptyStore)
   \<and> dataManager_error (noManager ''2024-01-03T09:00:00.000Z'') = Some (Error ''token'')
   \<and> setTimeEntry Number_digits (noManager ''2024-01-03T09:00:00.000Z'') emptyStore
         (entry42 ''2024-01-03'' 1) None = (Inl (Error ''token''), emptyStore)
   \<and> dataManager_error (readFails ''2024-01-03T09:00:00.000Z'') = None
   \<and> getDocument_error (readFails ''2024-01-03T09:00:00.000Z'') = Some (Error ''network'')
   \<and> setDocument_error (readFails ''2024-01-03T09:00:00.000Z'') = None
   \<and> \<not> isl (fst (setTimeEntry Number_digits (readFails ''2024-01-03T09:00:00.000Z'') emptyStore
         (entry42 ''2024-01-03'' 1) None))"
  using setTimeEntry_failures[of "writeFails ''2024-01-03T09:00:00.000Z''" "Error ''network''"
      Number_digits emptyStore "entry42 ''2024-01-03'' 1" None]
    setTimeEntry_failures[of "readFails ''2024-01-03T09:00:00.000Z''" "Error ''network''"
      Number_digits emptyStore "entry42 ''2024-01-03'' 1" None]
    setTimeEntry_failures[of "noManager ''2024-01-03T09:00:00.000Z''" "Error ''token''"
      Number_digits emptyStore "entry42 ''2024-01-03'' 1" None]
  by (simp add: writeFails_def readFails_def noManager_def calm_def)

text \<open>
  Claim C6 as stated fails: the read is rejected with a network error, the write succeeds,
  and the call returns a record with action \<open>created\<close> instead of an error.
\<close>

theorem setTimeEntry_read_failure_counterexample:
  "getDocument_error (readFails ''2024-01-03T09:00:00.000Z'') = Some (Error ''network'')
   \<and> fst (setTimeEntry Number_digits (readFails ''2024-01-03T09:00:00.000Z'') emptyStore
            (entry42 ''2024-01-03'' 1) None)
       = Inr \<lparr>workItemId = IdNum 42, workItemTitle = Some ''Fix login'', workItemType = Some ''Bug'',
              projectId = ''p1'', projectName = None, description = [], userId = ''u1'',
              userName = Some ''Ann'', entryId = ''time-entry-42-u1'',
              logs = Some [\<lparr>date = ''2024-01-03'', hours = 1\<rparr>],
              createdAt = Some ''2024-01-03T09:00:00.000Z'',
              updatedAt = Some ''2024-01-03T09:00:00.000Z'',
              auditLog = [\<lparr>timestamp = ''2024-01-03T09:00:00.000Z'', auditUserId = ''u1'',
                           auditUserName = ''Ann'', action = Created, previousHours = 0,
                           newHours = 1, auditNotes = None\<rparr>],
              etag = None, top_hours = Some 1, top_date = Some ''2024-01-03''\<rparr>"
  by (simp add: readFails_def calm_def entry42_def emptyStore_def setTimeEntry_def getTimeEntry_def
      timeEntryOf_def Let_def key42 or_str_def truthy_def)

section \<open>Timestamps and the concurrency token\<close>




section \<open>The legacy shim and the bulk read\<close>

text \<open>
  Claim C7. The legacy shim is idempotent, whatever the clock shows at either application.
  It returns a document that has \<open>logs\<close> as it is. To a document without \<open>logs\<close> but with
  the scalar \<open>hours\<close> it gives the single log whose hours are that scalar and whose date is
  the first ten characters of \<open>updatedAt\<close>, or of \<open>createdAt\<close> when \<open>updatedAt\<close> is absent or
  empty (of the clock's reading when both are), and it changes nothing else. Followed by
  the normalisation of the work item id it is idempotent too.
\<close>

theorem legacyShim_idempotent:
  "legacyShim clock' (legacyShim clock doc) = legacyShim clock doc
   \<and> (logs doc \<noteq> None \<longrightarrow> legacyShim clock doc = doc)
   \<and> (logs doc = None \<and> top_hours doc = None \<longrightarrow> legacyShim clock doc = doc)
   \<and> (logs doc = None \<and> top_hours doc = Some h \<longrightarrow>
        legacyShim clock doc
          = doc\<lparr>logs := Some [\<lparr>date = take 10 (or_str (updatedAt doc) (or_str (createdAt doc) clock)),
                                 hours = h\<rparr>]\<rparr>)
   \<and> (updatedAt doc = Some u \<and> u \<noteq> [] \<longrightarrow>
        or_str (updatedAt doc) (or_str (createdAt doc) clock) = u)
   \<and> (\<not> truthy (updatedAt doc) \<and> createdAt doc = Some cr \<and> cr \<noteq> [] \<longrightarrow>
        or_str (updatedAt doc) (or_str (createdAt doc) clock) = cr)
   \<and> (\<not> truthy (updatedAt doc) \<and> \<not> truthy (createdAt doc) \<longrightarrow>
        or_str (updatedAt doc) (or_str (createdAt doc) clock) = clock)
   \<and> normalizeWorkItemId N (legacyShim clock' (normalizeWorkItemId N (legacyShim clock doc)))
        = normalizeWorkItemId N (legacyShim clock doc)"
  by (auto simp: legacyShim_def normalizeWorkItemId_def Number_id_def or_str_def truthy_def
      split: option.splits idval.splits)

theorem legacyShim_idempotent_witness:
  "logs legacyDoc = None \<and> top_hours legacyDoc = Some 2.5
   \<and> updatedAt legacyDoc = Some ''2023-05-02T10:30:00.000Z''
   \<and> legacyShim ''2024-03-05T12:00:00.000Z'' legacyDoc
        = legacyDoc\<lparr>logs := Some [\<lparr>date = ''2023-05-02'', hours = 2.5\<rparr>]\<rparr>
   \<and> legacyShim ''2024-03-06T12:00:00.000Z'' (legacyShim ''2024-03-05T12:00:00.000Z'' legacyDoc)
        = legacyShim ''2024-03-05T12:00:00.000Z'' legacyDoc
   \<and> logs janeEntry \<noteq> None \<and> legacyShim ''2024-03-05T12:00:00.000Z'' janeEntry = janeEntry
   \<and> logs undatedDoc = None \<and> top_hours undatedDoc = Some 2.5
   \<and> \<not> truthy (updatedAt undatedDoc) \<and> \<not> truthy (createdAt undatedDoc)
   \<and> legacyShim ''2024-03-05T12:00:00.000Z'' undatedDoc
        = undatedDoc\<lparr>logs := Some [\<lparr>date = ''2024-03-05'', hours = 2.5\<rparr>]\<rparr>"
proof -
  note T = legacyShim_idempotent[of "''2024-03-06T12:00:00.000Z''" "''2024-03-05T12:00:00.000Z''"
      legacyDoc "2.5" "''2023-05-02T10:30:00.000Z''" "''2023-05-01T08:00:00.000Z''" Number_digits]
  have h: "logs legacyDoc = None \<and> top_hours legacyDoc = Some 2.5"
    and u: "updatedAt legacyDoc = Some ''2023-05-02T10:30:00.000Z''
              \<and> ''2023-05-02T10:30:00.000Z'' \<noteq> []"
    by (simp_all add: legacyDoc_def)
  note idem = T[THEN conjunct1]
  note synth = T[THEN conjunct2, THEN conjunct2, THEN conjunct2, THEN conjunct1, THEN mp, OF h]
  note stamp = T[THEN conjunct2, THEN conjunct2, THEN conjunct2, THEN conjunct2, THEN conjunct1,
      THEN mp, OF u]
  have 1: "legacyShim ''2024-03-05T12:00:00.000Z'' legacyDoc
        = legacyDoc\<lparr>logs := Some [\<lparr>date = ''2023-05-02'', hours = 2.5\<rparr>]\<rparr>"
    unfolding synth stamp by simp
  note J = legacyShim_idempotent[of "''2024-03-06T12:00:00.000Z''" "''2024-03-05T12:00:00.000Z''"
      janeEntry "2.5" "''2023-05-02T10:30:00.000Z''" "''2023-05-01T08:00:00.000Z''" Number_digits]
  have j: "logs janeEntry \<noteq> None"
    by (simp add: janeEntry_def)
  note 2 = J[THEN conjunct2, THEN conjunct1, THEN mp, OF j]
  note D = legacyShim_idempotent[of "''2024-03-06T12:00:00.000Z''" "''2024-03-05T12:00:00.000Z''"
      undatedDoc "2.5" "''2023-05-02T10:30:00.000Z''" "''2023-05-01T08:00:00.000Z''" Number_digits]
  have dh: "logs undatedDoc = None \<and> top_hours undatedDoc = Some 2.5"
    and dt: "\<not> truthy (updatedAt undatedDoc) \<and> \<not> truthy (createdAt undatedDoc)"
    by (simp_all add: undatedDoc_def legacyDoc_def truthy_def)
  note dsynth = D[THEN conjunct2, THEN conjunct2, THEN conjunct2, THEN conjunct1, THEN mp, OF dh]
  note dclock = D[THEN conjunct2, THEN conjunct2, THEN conjunct2, THEN conjunct2, THEN conjunct2,
      THEN conjunct2, THEN conjunct1, THEN mp, OF dt]
  have 3: "legacyShim ''2024-03-05T12:00:00.000Z'' undatedDoc
        = undatedDoc\<lparr>logs := Some [\<lparr>date = ''2024-03-05'', hours = 2.5\<rparr>]\<rparr>"
    unfolding dsynth dclock by simp
  from idem h u 1 j 2 dh dt 3 show ?thesis by simp
qed

text \<open>
  Claim C8. With the data manager at hand, \<open>getAllTimeEntries\<close> never fails: when the read of
  the documents is rejected it returns the empty list, and otherwise it returns every
  document, in order, after the legacy shim and with its work item id converted by
  \<open>Number\<close>, so that the id of every returned entry is a number.
\<close>

theorem getAllTimeEntries_fail_soft:
  assumes "dataManager_error w = None"
  shows "(getDocument_error w \<noteq> None \<longrightarrow> getAllTimeEntries N w documents = Inr [])
     \<and> (getDocument_error w = None \<longrightarrow>
          getAllTimeEntries N w documents
            = Inr (map (\<lambda>doc. normalizeWorkItemId N (legacyShim (read_now w) doc)) documents))
     \<and> (\<exists>rs. getAllTimeEntries N w documents = Inr rs
            \<and> (\<forall>r \<in> set rs. is_number (workItemId r)))"
  using assms
  by (auto simp: getAllTimeEntries_def normalizeWorkItemId_def Number_id_def is_number_def
      split: option.splits idval.splits)

theorem getAllTimeEntries_fail_soft_witness:
  "dataManager_error (readFails ''2024-03-05T12:00:00.000Z'') = None
   \<and> getDocument_error (readFails ''2024-03-05T12:00:00.000Z'') \<noteq> None
   \<and> getAllTimeEntries Number_digits (readFails ''2024-03-05T12:00:00.000Z'') [legacyDoc] = Inr []
   \<and> dataManager_error (calm ''2024-03-05T12:00:00.000Z'') = None
   \<and> getDocument_error (calm ''2024-03-05T12:00:00.000Z'') = None
   \<and> getAllTimeEntries Number_digits (calm ''2024-03-05T12:00:00.000Z'') [legacyDoc]
        = Inr [legacyDoc\<lparr>workItemId := IdNum 42,
                          logs := Some [\<lparr>date = ''2023-05-02'', hours = 2.5\<rparr>]\<rparr>]"
proof -
  have a1: "dataManager_error (readFails ''2024-03-05T12:00:00.000Z'') = None"
    and a2: "getDocument_error (readFails ''2024-03-05T12:00:00.000Z'') \<noteq> None"
    and b1: "dataManager_error (calm ''2024-03-05T12:00:00.000Z'') = None"
    and b2: "getDocument_error (calm ''2024-03-05T12:00:00.000Z'') = None"
    by (simp_all add: readFails_def calm_def)
  note T = getAllTimeEntries_fail_soft[OF a1, of Number_digits "[legacyDoc]"]
  note U = getAllTimeEntries_fail_soft[OF b1, of Number_digits "[legacyDoc]"]
  note 1 = T[THEN conjunct1, THEN mp, OF a2]
  note 2 = U[THEN conjunct2, THEN conjunct1, THEN mp, OF b2]
  have 3: "map (\<lambda>doc. normalizeWorkItemId Number_digits
                        (legacyShim (read_now (calm ''2024-03-05T12:00:00.000Z'')) doc)) [legacyDoc]
      = [legacyDoc\<lparr>workItemId := IdNum 42,
                    logs := Some [\<lparr>date = ''2023-05-02'', hours = 2.5\<rparr>]\<rparr>]"
    unfolding list.map shim_legacyDoc normalizeWorkItemId_def
    by (simp add: Number_id_def legacyDoc_def Number_digits_42)
  from a1 a2 b1 b2 1 2[unfolded 3] show ?thesis by blast
qed

section \<open>Settings\<close>

lemma getSettings_one_call:
  "(dataManager_error w = None \<longrightarrow> (\<exists>r. getSettings w stored defaults = Inr r))
   \<and> (dataManager_error w = None \<and> getDocument_error w \<noteq> None \<longrightarrow>
        getSettings w stored defaults = Inr DefaultsObject)
   \<and> (dataManager_error w = None \<and> getDocument_error w = None \<and> stored = Some doc \<longrightarrow>
        (\<exists>s. getSettings w stored defaults = Inr (NewObject s)
           \<and> (\<forall>k. s k = (case doc k of Some v \<Rightarrow> Some v | None \<Rightarrow> defaults k))))
   \<and> contentOf DEFAULT_SETTINGS DefaultsObject ''hourIncrement'' = Some (JNum 0.5)
   \<and> dom DEFAULT_SETTINGS = {''hourIncrement''}"
  by (auto simp: getSettings_def DEFAULT_SETTINGS_def contentOf_def map_add_def split: option.splits)

text \<open>
  Claim C10. \<open>getSettings\<close> does return the defaults for a read that fails, and a stored
  document overrides them key by key, but what it returns for a failed read is the
  module's object itself, not a copy of it as on the other path. The page of the work item
  form keeps that object in its variable \<open>settings\<close> and assigns the chosen increment to
  its field, so the defaults themselves change: with the read failing both times, the
  first call returns \<open>{hourIncrement: 0.5}\<close> and, after the user has chosen 0.25, the second
  returns \<open>{hourIncrement: 0.25}\<close>.
\<close>

theorem getSettings_defaults_shared:
  "getSettings (readFails t) None DEFAULT_SETTINGS = Inr DefaultsObject
   \<and> contentOf DEFAULT_SETTINGS DefaultsObject = [''hourIncrement'' \<mapsto> JNum 0.5]
   \<and> assignHourIncrement 0.25 (DEFAULT_SETTINGS, DefaultsObject)
       = ([''hourIncrement'' \<mapsto> JNum 0.25], DefaultsObject)
   \<and> getSettings (readFails t') None [''hourIncrement'' \<mapsto> JNum 0.25] = Inr DefaultsObject
   \<and> contentOf [''hourIncrement'' \<mapsto> JNum 0.25] DefaultsObject ''hourIncrement'' = Some (JNum 0.25)
   \<and> getSettings (calm t) (Some [''hourIncrement'' \<mapsto> JNum 1]) DEFAULT_SETTINGS
       = Inr (NewObject [''hourIncrement'' \<mapsto> JNum 1])
   \<and> assignHourIncrement 0.25 (DEFAULT_SETTINGS, NewObject [''hourIncrement'' \<mapsto> JNum 1])
       = (DEFAULT_SETTINGS, NewObject [''hourIncrement'' \<mapsto> JNum 0.25])"
  by (simp add: getSettings_def readFails_def calm_def contentOf_def assignHourIncrement_def
      DEFAULT_SETTINGS_def)

section \<open>The report: filter and export\<close>

lemma keepLog_satisfies:
  "keepLog \<lparr>startDate = or_undefined (filterStartDate ui),
            endDate = or_undefined (filterEndDate ui),
            filter_userId = or_undefined (filterUser ui),
            filter_workItemType = or_undefined (filterWorkItemType ui)\<rparr>
     (case filterWorkItemId ui of None \<Rightarrow> None | Some v \<Rightarrow> or_undefined v)
   = satisfies (criteriaOf ui)"
  by (rule ext) (auto simp: keepLog_def satisfies_def criteriaOf_def or_undefined_def not_less
      split: option.splits)

text \<open>
  Claim C5. \<open>applyFilters\<close> keeps, in their order, exactly the rows that satisfy every
  criterion provided by a non-empty control: the row's own log date is not before the
  start and not after the end of the range, as strings; its user id and its work item type
  are the given ones; the decimal text of its work item id is the given text. With every
  control empty it keeps every row. A work item id given in decimal keeps only the rows
  of that work item.
\<close>

theorem applyFilters_satisfies:
  "applyFilters ui rows = filter (satisfies (criteriaOf ui)) rows
   \<and> set (applyFilters ui rows) = {row \<in> set rows. satisfies (criteriaOf ui) row}
   \<and> (filterStartDate ui = [] \<and> filterEndDate ui = [] \<and> filterUser ui = []
        \<and> filterWorkItemType ui = [] \<and> (filterWorkItemId ui = None \<or> filterWorkItemId ui = Some [])
      \<longrightarrow> applyFilters ui rows = rows)
   \<and> (0 \<le> k \<and> filterWorkItemId ui = Some (toString (IdNum k)) \<longrightarrow>
        (\<forall>row \<in> set (applyFilters ui rows). \<forall>j. 0 \<le> j \<and> workItemId row = IdNum j \<longrightarrow> j = k))"
proof -
  have eq: "applyFilters ui rows = filter (satisfies (criteriaOf ui)) rows"
    by (simp add: applyFilters_def Let_def keepLog_satisfies)
  have all: "filter (satisfies (criteriaOf ui)) rows = rows"
    if "filterStartDate ui = [] \<and> filterEndDate ui = [] \<and> filterUser ui = []
        \<and> filterWorkItemType ui = [] \<and> (filterWorkItemId ui = None \<or> filterWorkItemId ui = Some [])"
    using that by (auto simp: satisfies_def criteriaOf_def)
  have ident: "j = k"
    if "0 \<le> k" "filterWorkItemId ui = Some (toString (IdNum k))"
      "satisfies (criteriaOf ui) row" "0 \<le> j" "workItemId row = IdNum j" for row j
  proof -
    have "toString (IdNum k) \<noteq> []"
      using that(1) by (simp add: toString_def showInt_def showNat_not_Nil)
    with that(2,3,5) have "toString (IdNum j) = toString (IdNum k)"
      by (simp add: satisfies_def criteriaOf_def)
    with that(1,4) show ?thesis by (simp add: toString_IdNum_inj)
  qed
  from eq all ident show ?thesis by auto
qed

theorem applyFilters_satisfies_witness:
  "applyFilters januaryItem7 reportRows
     = [janeRow, janeRow\<lparr>log_date := ''2024-01-31'', log_hours := 4\<rparr>]
   \<and> filterStartDate noControls = [] \<and> filterEndDate noControls = [] \<and> filterUser noControls = []
   \<and> filterWorkItemType noControls = [] \<and> filterWorkItemId noControls = None
   \<and> applyFilters noControls reportRows = reportRows
   \<and> (0::int) \<le> 7 \<and> filterWorkItemId januaryItem7 = Some (toString (IdNum 7))"
proof -
  note T = applyFilters_satisfies[of januaryItem7 reportRows 7]
  note U = applyFilters_satisfies[of noControls reportRows 7]
  have s8: "showInt 8 = ''8''"
    by (simp add: showInt_def showNat.simps digit_char_def)
  have "filter (satisfies (criteriaOf januaryItem7)) reportRows
     = [janeRow, janeRow\<lparr>log_date := ''2024-01-31'', log_hours := 4\<rparr>]"
    by (simp add: satisfies_def criteriaOf_def januaryItem7_def reportRows_def janeRow_def
        toString_def showInt7 s8)
  with T[THEN conjunct1] have 1: "applyFilters januaryItem7 reportRows
     = [janeRow, janeRow\<lparr>log_date := ''2024-01-31'', log_hours := 4\<rparr>]"
    by simp
  have 2: "filterStartDate noControls = [] \<and> filterEndDate noControls = [] \<and> filterUser noControls = []
        \<and> filterWorkItemType noControls = []
        \<and> (filterWorkItemId noControls = None \<or> filterWorkItemId noControls = Some [])"
    by (simp add: noControls_def)
  note 3 = U[THEN conjunct2, THEN conjunct2, THEN conjunct1, THEN mp, OF 2]
  have 4: "filterWorkItemId januaryItem7 = Some (toString (IdNum 7))"
    by (simp add: januaryItem7_def toString_def showInt7)
  have 5: "filterWorkItemId noControls = None"
    by (simp add: noControls_def)
  from 1 2 3 4 5 show ?thesis by simp
qed

lemma showInt3: "showInt 3 = ''3''"
  by (simp add: showInt_def showNat.simps digit_char_def)

text \<open>
  Claim C4. The export of the report quotes the description and doubles its quotes, but
  writes the work item type and the user's name as they are. For a row whose user is named
  \<open>Doe, Jane\<close> the line has seven fields for a CSV parser instead of the six of the row: the
  name comes back as \<open>Doe\<close> and \<open> Jane\<close>, while the description, with its quotes and its
  comma, comes back whole. The export of the service quotes the title and the description
  and has the same gap for the type and the user: eight fields instead of seven.
\<close>

theorem exportToCSV_unquoted_user:
  "exportToCSV wholeHours [janeRow]
     = Some (''Work Item,Type,Hours,User,Description,Date'' @ [CHR 0x0A]
             @ ''#7,Bug,2,Doe, Jane,'' @ [CHR 0x22] @ ''say '' @ [CHR 0x22, CHR 0x22] @ ''hi''
             @ [CHR 0x22, CHR 0x22] @ '', then go'' @ [CHR 0x22] @ '',2024-01-01'')
   \<and> map_option parseCSV (exportToCSV wholeHours [janeRow])
     = Some [[''Work Item'', ''Type'', ''Hours'', ''User'', ''Description'', ''Date''],
             [''#7'', ''Bug'', ''2'', ''Doe'', '' Jane'',
              ''say '' @ [CHR 0x22] @ ''hi'' @ [CHR 0x22] @ '', then go'', ''2024-01-01'']]
   \<and> rowFields wholeHours janeRow
     = [''#7'', ''Bug'', ''2'', ''Doe, Jane'',
        ''say '' @ [CHR 0x22] @ ''hi'' @ [CHR 0x22] @ '', then go'', ''2024-01-01'']
   \<and> parseCSV (service_exportToCSV wholeHours [janeEntry])
     = [[''Work Item ID'', ''Work Item Title'', ''Type'', ''Hours'', ''User'', ''Description'',
         ''Last Updated''],
        [''7'', ''Fix login, again'', ''Bug'', ''3'', ''Doe'', '' Jane'', ''see #7'',
         ''2024-01-02T09:00:00.000Z'']]"
proof -
  have a: "exportToCSV wholeHours [janeRow]
     = Some (''Work Item,Type,Hours,User,Description,Date'' @ [CHR 0x0A]
             @ ''#7,Bug,2,Doe, Jane,'' @ [CHR 0x22] @ ''say '' @ [CHR 0x22, CHR 0x22] @ ''hi''
             @ [CHR 0x22, CHR 0x22] @ '', then go'' @ [CHR 0x22] @ '',2024-01-01'')"
    by (simp add: exportToCSV_def csvRow_def janeRow_def wholeHours_def toString_def showInt7
        or_str_def doubleQuotes_def)
  have b: "parseCSV (''Work Item,Type,Hours,User,Description,Date'' @ [CHR 0x0A]
             @ ''#7,Bug,2,Doe, Jane,'' @ [CHR 0x22] @ ''say '' @ [CHR 0x22, CHR 0x22] @ ''hi''
             @ [CHR 0x22, CHR 0x22] @ '', then go'' @ [CHR 0x22] @ '',2024-01-01'')
     = [[''Work Item'', ''Type'', ''Hours'', ''User'', ''Description'', ''Date''],
        [''#7'', ''Bug'', ''2'', ''Doe'', '' Jane'',
         ''say '' @ [CHR 0x22] @ ''hi'' @ [CHR 0x22] @ '', then go'', ''2024-01-01'']]"
    by (simp add: parseCSV_def)
  have c: "rowFields wholeHours janeRow
     = [''#7'', ''Bug'', ''2'', ''Doe, Jane'',
        ''say '' @ [CHR 0x22] @ ''hi'' @ [CHR 0x22] @ '', then go'', ''2024-01-01'']"
    by (simp add: rowFields_def janeRow_def wholeHours_def toString_def showInt7 or_str_def)
  have d: "parseCSV (service_exportToCSV wholeHours [janeEntry])
     = [[''Work Item ID'', ''Work Item Title'', ''Type'', ''Hours'', ''User'', ''Description'',
         ''Last Updated''],
        [''7'', ''Fix login, again'', ''Bug'', ''3'', ''Doe'', '' Jane'', ''see #7'',
         ''2024-01-02T09:00:00.000Z'']]"
    by (simp add: service_exportToCSV_def serviceCsvRow_def janeEntry_def wholeHours_def
        totalHours_def toString_def showInt7 showInt3 or_str_def doubleQuotes_def parseCSV_def)
  from a b c d show ?thesis by simp
qed

end
